theory Spec2Isabelle
  imports Main "HOL-Library.AList"
begin

section \<open>Values, exceptions and Python strings\<close>

text \<open>
  The values that travel through the database helpers of \<^verbatim>\<open>api/database/functions.py\<close>:
  bound parameters, result columns and the permission flags of a token row.  Python's
  \<^verbatim>\<open>==\<close> identifies \<^verbatim>\<open>True\<close> with \<^verbatim>\<open>1\<close> and \<^verbatim>\<open>False\<close> with \<^verbatim>\<open>0\<close>;
  \<open>py_eq\<close> is that comparison.  Floating point values are not modelled.
\<close>

datatype sqlval = VNull | VBool bool | VInt int | VStr string

fun py_eq :: "sqlval \<Rightarrow> sqlval \<Rightarrow> bool" where
  "py_eq (VInt a) (VInt b) = (a = b)"
| "py_eq (VBool a) (VInt b) = ((if a then 1 else 0) = b)"
| "py_eq (VInt a) (VBool b) = (a = (if b then 1 else 0))"
| "py_eq (VBool a) (VBool b) = (a = b)"
| "py_eq (VStr a) (VStr b) = (a = b)"
| "py_eq VNull VNull = True"
| "py_eq _ _ = False"

text \<open>
  Every exception the modelled code can raise or let through.  \<open>HTTPException\<close> carries
  \<^verbatim>\<open>status_code\<close> and \<^verbatim>\<open>detail\<close>; the others carry their message.  \<open>DBAPIError\<close>
  stands for any failure of the store (connectivity, syntax, constraint).
  \<open>PermissionDenied\<close> is the failure of the specification's \<^verbatim>\<open>verify\<close>, with its reason.
\<close>

datatype error =
    HTTPException int string
  | TypeError string
  | ValueError string
  | IndexError string
  | AttributeError string
  | SyntaxError string
  | ResourceClosedError string
  | DBAPIError string
  | PermissionDenied string

text \<open>A Python \<^verbatim>\<open>dict\<close> with string keys keeps insertion order; assignment to an existing
  key replaces the value in place, assignment to a new key appends.  That is \<open>AList.update\<close>.\<close>

type_synonym dict = "(string \<times> sqlval) list"

text \<open>
  A \<^typ>\<open>char\<close> stands for a code point below 256.  \<^verbatim>\<open>str.strip()\<close> removes the
  characters for which \<^verbatim>\<open>str.isspace()\<close> holds, \<^verbatim>\<open>str.lower()\<close> maps the upper-case
  letters of that range to their lower-case partners (32 code points further).
\<close>

definition isspace :: "char \<Rightarrow> bool" where
  "isspace c \<longleftrightarrow> c \<in> set [CHR 0x09, CHR 0x0A, CHR 0x0B, CHR 0x0C, CHR 0x0D,
                          CHR 0x1C, CHR 0x1D, CHR 0x1E, CHR 0x1F, CHR 0x20, CHR 0x85, CHR 0xA0]"

definition strip :: "string \<Rightarrow> string" where
  "strip s = rev (dropWhile isspace (rev (dropWhile isspace s)))"

definition lower_char :: "char \<Rightarrow> char" where
  "lower_char c =
     (let n = (of_char c :: nat)
      in if (65 \<le> n \<and> n \<le> 90) \<or> (192 \<le> n \<and> n \<le> 222 \<and> n \<noteq> 215)
         then char_of (n + 32) else c)"

definition lower :: "string \<Rightarrow> string" where
  "lower s = map lower_char s"

definition startswith :: "string \<Rightarrow> string \<Rightarrow> bool" where
  "startswith s p \<longleftrightarrow> take (length p) s = p"

section \<open>The query executor: \<^verbatim>\<open>execute_sql\<close>\<close>

text \<open>
  What \<^verbatim>\<open>session.execute\<close> hands back is SQLAlchemy's result object: the column names
  of the result set and the rows not fetched yet.  A statement that produced no result set
  has no column description; for such a result \<^verbatim>\<open>keys()\<close>, \<^verbatim>\<open>fetchall()\<close> and
  \<^verbatim>\<open>mappings()\<close> raise \<^verbatim>\<open>ResourceClosedError\<close>.  Fetching all rows exhausts the result.
\<close>

record cursor_result =
  result_keys :: "string list"
  pending :: "sqlval list list"

definition returns_rows :: "cursor_result \<Rightarrow> bool" where
  "returns_rows res \<longleftrightarrow> result_keys res \<noteq> []"

definition no_rows_error :: error where
  "no_rows_error =
     ResourceClosedError ''This result object does not return rows. It has been closed automatically.''"

definition keys :: "cursor_result \<Rightarrow> error + string list" where
  "keys res = (if returns_rows res then Inr (result_keys res) else Inl no_rows_error)"

definition fetchall :: "cursor_result \<Rightarrow> (error + sqlval list list) \<times> cursor_result" where
  "fetchall res =
     (if returns_rows res then (Inr (pending res), res\<lparr>pending := []\<rparr>)
      else (Inl no_rows_error, res))"

definition mappings_all :: "cursor_result \<Rightarrow> (error + dict list) \<times> cursor_result" where
  "mappings_all res =
     (if returns_rows res
      then (Inr (map (\<lambda>r. zip (result_keys res) r) (pending res)), res\<lparr>pending := []\<rparr>)
      else (Inl no_rows_error, res))"

text \<open>The class \<^verbatim>\<open>sql_cursor\<close> wraps one result object in its attribute \<^verbatim>\<open>rows\<close>.\<close>

record sql_cursor =
  cursor_rows :: cursor_result

text \<open>
  The engine, as far as \<^verbatim>\<open>execute_sql\<close> sees it: whether \<^verbatim>\<open>engine.connect()\<close> fails,
  what \<^verbatim>\<open>session.execute\<close> does with a statement and its bound parameters, and whether
  \<^verbatim>\<open>session.commit()\<close> fails.
\<close>

record engine =
  connect :: "error option"
  session_execute :: "string \<Rightarrow> dict \<Rightarrow> error + cursor_result"
  session_commit :: "error option"

datatype log_record = LogHasReturn bool | LogSql string | LogParam dict

datatype event =
    LoggingDebug log_record
  | EngineConnect
  | SessionOpen
  | SessionExecute string dict
  | SessionCommit
  | SessionClose
  | ConnectionClose
  | EngineDispose

text \<open>
  The parameter dictionaries are mutable objects: the world maps references to their
  current contents and records, in order, what happened to the engine.  The default value
  of the argument \<^verbatim>\<open>param\<close> is one dictionary object, created when the function is
  defined; \<open>default_param\<close> is its reference.
\<close>

type_synonym ref = nat

record world =
  heap :: "ref \<Rightarrow> dict"
  trace :: "event list"

definition default_param :: ref where
  "default_param = 0"

definition setitem :: "ref \<Rightarrow> string \<Rightarrow> sqlval \<Rightarrow> world \<Rightarrow> world" where
  "setitem r k v w = w\<lparr>heap := (heap w)(r := AList.update k v (heap w r))\<rparr>"

definition emit :: "event list \<Rightarrow> world \<Rightarrow> world" where
  "emit es w = w\<lparr>trace := trace w @ es\<rparr>"

text \<open>Line 19: a statement is a read when its trimmed, lower-cased text starts with
  \<^verbatim>\<open>select\<close>.\<close>

definition has_return :: "string \<Rightarrow> bool" where
  "has_return sql = (if startswith (lower (strip sql)) ''select'' then True else False)"

text \<open>Lines 21 to 31: the pagination of a read statement.\<close>

definition paginate :: "string \<Rightarrow> ref \<Rightarrow> int \<Rightarrow> int \<Rightarrow> world \<Rightarrow> string \<times> world" where
  "paginate sql param row_count page w =
     (let row_count = (if row_count \<le> 100000 then row_count else 100000);
          page = (if page \<ge> 1 then page else 1);
          offset = (page - 1) * row_count;
          sql = sql @ '' limit :offset, :row_count'';
          w = setitem param ''offset'' (VInt offset) w;
          w = setitem param ''row_count'' (VInt row_count) w
      in (sql, w))"

text \<open>Lines 37 to 40: the debug output.\<close>

definition debugging :: "bool \<Rightarrow> bool \<Rightarrow> string \<Rightarrow> ref \<Rightarrow> world \<Rightarrow> world" where
  "debugging debug has_ret sql param w =
     (if debug
      then emit [LoggingDebug (LogHasReturn has_ret), LoggingDebug (LogSql sql),
                 LoggingDebug (LogParam (heap w param))] w
      else w)"

text \<open>
  Lines 43 to 54.  Leaving an \<^verbatim>\<open>async with\<close> block closes what it opened, also when an
  exception passes through; \<^verbatim>\<open>engine.dispose()\<close> is the statement after the block.
\<close>

definition run_session ::
  "engine \<Rightarrow> bool \<Rightarrow> string \<Rightarrow> ref \<Rightarrow> world \<Rightarrow> (error + sql_cursor option) \<times> world" where
  "run_session eng has_ret sql param w =
     (case connect eng of
        Some e \<Rightarrow> (Inl e, w)
      | None \<Rightarrow>
         (let w = emit [EngineConnect, SessionOpen, SessionExecute sql (heap w param)] w
          in case session_execute eng sql (heap w param) of
               Inl e \<Rightarrow> (Inl e, emit [SessionClose, ConnectionClose] w)
             | Inr rows \<Rightarrow>
                (let records = (if has_ret then Some \<lparr>cursor_rows = rows\<rparr> else None)
                 in case session_commit eng of
                      Some e \<Rightarrow> (Inl e, emit [SessionClose, ConnectionClose] w)
                    | None \<Rightarrow>
                       (Inr records,
                        emit [SessionCommit, SessionClose, ConnectionClose, EngineDispose] w))))"

definition execute_sql ::
  "engine \<Rightarrow> string \<Rightarrow> ref option \<Rightarrow> bool \<Rightarrow> int \<Rightarrow> int \<Rightarrow> world
     \<Rightarrow> (error + sql_cursor option) \<times> world" where
  "execute_sql eng sql param_arg debug row_count page w =
     (let param = (case param_arg of None \<Rightarrow> default_param | Some r \<Rightarrow> r);
          has_ret = has_return sql;
          (sql, w) = (if has_ret then paginate sql param row_count page w else (sql, w));
          w = debugging debug has_ret sql param w
      in run_session eng has_ret sql param w)"

text \<open>The statements and bound parameters that reached \<^verbatim>\<open>session.execute\<close>, in order.\<close>

fun executed_of :: "event list \<Rightarrow> (string \<times> dict) list" where
  "executed_of [] = []"
| "executed_of (SessionExecute s d # es) = (s, d) # executed_of es"
| "executed_of (_ # es) = executed_of es"

definition executed :: "world \<Rightarrow> (string \<times> dict) list" where
  "executed w = executed_of (trace w)"

section \<open>Fixed-field records: \<^verbatim>\<open>collections.namedtuple\<close>\<close>

text \<open>
  \<^verbatim>\<open>namedtuple(typename, field_names)\<close> checks the names before it builds the class: each
  must be an identifier and no keyword, and a field name must not start with an underscore
  or repeat.  The messages are kept without the \<^verbatim>\<open>repr\<close> of the offending name.  The
  class is then built from generated source text in which the field names are the
  parameters of \<^verbatim>\<open>__new__\<close>.  Python normalises the identifiers of source text (NFKC),
  and two parameters that are equal after that are a \<^verbatim>\<open>SyntaxError\<close>.
\<close>

definition xid_start :: "char \<Rightarrow> bool" where
  "xid_start c =
     (let n = (of_char c :: nat)
      in (65 \<le> n \<and> n \<le> 90) \<or> n = 95 \<or> (97 \<le> n \<and> n \<le> 122) \<or> n = 170 \<or> n = 181 \<or> n = 186
         \<or> (192 \<le> n \<and> n \<le> 214) \<or> (216 \<le> n \<and> n \<le> 246) \<or> 248 \<le> n)"

definition xid_continue :: "char \<Rightarrow> bool" where
  "xid_continue c =
     (let n = (of_char c :: nat) in xid_start c \<or> (48 \<le> n \<and> n \<le> 57) \<or> n = 183)"

definition isidentifier :: "string \<Rightarrow> bool" where
  "isidentifier s = (case s of [] \<Rightarrow> False | c # cs \<Rightarrow> xid_start c \<and> list_all xid_continue cs)"

definition kwlist :: "string list" where
  "kwlist = [''False'', ''None'', ''True'', ''and'', ''as'', ''assert'', ''async'', ''await'',
     ''break'', ''class'', ''continue'', ''def'', ''del'', ''elif'', ''else'', ''except'',
     ''finally'', ''for'', ''from'', ''global'', ''if'', ''import'', ''in'', ''is'', ''lambda'',
     ''nonlocal'', ''not'', ''or'', ''pass'', ''raise'', ''return'', ''try'', ''while'', ''with'',
     ''yield'']"

definition iskeyword :: "string \<Rightarrow> bool" where
  "iskeyword s \<longleftrightarrow> s \<in> set kwlist"

fun check_names :: "string list \<Rightarrow> error option" where
  "check_names [] = None"
| "check_names (name # names) =
     (if \<not> isidentifier name
      then Some (ValueError ''Type names and field names must be valid identifiers'')
      else if iskeyword name
      then Some (ValueError ''Type names and field names cannot be a keyword'')
      else check_names names)"

fun check_fields :: "string list \<Rightarrow> string list \<Rightarrow> error option" where
  "check_fields seen [] = None"
| "check_fields seen (name # names) =
     (if startswith name ''_''
      then Some (ValueError ''Field names cannot start with an underscore'')
      else if name \<in> set seen
      then Some (ValueError ''Encountered duplicate field name'')
      else check_fields (name # seen) names)"

text \<open>
  NFKC on the characters an identifier below code point 256 can hold: the ordinal
  indicators become \<^verbatim>\<open>a\<close> and \<^verbatim>\<open>o\<close>, the micro sign becomes the Greek letter mu
  (code point 956), every other character stays.  A normalised name is a list of code points.
\<close>

definition nfkc_char :: "char \<Rightarrow> nat" where
  "nfkc_char c =
     (let n = (of_char c :: nat)
      in if n = 170 then 97 else if n = 186 then 111 else if n = 181 then 956 else n)"

definition nfkc :: "string \<Rightarrow> nat list" where
  "nfkc s = map nfkc_char s"

fun check_arguments :: "nat list list \<Rightarrow> string list \<Rightarrow> error option" where
  "check_arguments seen [] = None"
| "check_arguments seen (name # names) =
     (if nfkc name \<in> set seen
      then Some (SyntaxError ''duplicate argument in function definition'')
      else check_arguments (nfkc name # seen) names)"

text \<open>A record class is its type name and field names; an instance adds the values.\<close>

record record_class =
  typename :: string
  class_fields :: "string list"

record py_record =
  record_fields :: "string list"
  record_values :: "sqlval list"

definition namedtuple :: "string \<Rightarrow> string list \<Rightarrow> error + record_class" where
  "namedtuple tname field_names =
     (case check_names (tname # field_names) of
        Some e \<Rightarrow> Inl e
      | None \<Rightarrow>
         (case check_fields [] field_names of
            Some e \<Rightarrow> Inl e
          | None \<Rightarrow>
             (case check_arguments [] field_names of
                Some e \<Rightarrow> Inl e
              | None \<Rightarrow> Inr \<lparr>typename = tname, class_fields = field_names\<rparr>)))"

text \<open>\<^verbatim>\<open>Record(*r)\<close>: one positional argument for each field.\<close>

definition new_record :: "record_class \<Rightarrow> sqlval list \<Rightarrow> error + py_record" where
  "new_record cls vals =
     (if length vals = length (class_fields cls)
      then Inr \<lparr>record_fields = class_fields cls, record_values = vals\<rparr>
      else Inl (TypeError (typename cls @ ''.__new__() got the wrong number of positional arguments'')))"

definition getattr :: "py_record \<Rightarrow> string \<Rightarrow> error + sqlval" where
  "getattr r name =
     (case map_of (zip (record_fields r) (record_values r)) name of
        None \<Rightarrow> Inl (AttributeError name)
      | Some v \<Rightarrow> Inr v)"

text \<open>A list comprehension whose element expression may raise stops at the first exception.\<close>

fun comprehension :: "('a \<Rightarrow> error + 'b) \<Rightarrow> 'a list \<Rightarrow> error + 'b list" where
  "comprehension f [] = Inr []"
| "comprehension f (x # xs) =
     (case f x of
        Inl e \<Rightarrow> Inl e
      | Inr y \<Rightarrow> (case comprehension f xs of Inl e \<Rightarrow> Inl e | Inr ys \<Rightarrow> Inr (y # ys)))"

section \<open>Materialising results: \<^verbatim>\<open>sql_cursor\<close> and \<^verbatim>\<open>sqlalchemy_result\<close>\<close>

definition sql_cursor_rows2dict :: "sql_cursor \<Rightarrow> (error + dict list) \<times> sql_cursor" where
  "sql_cursor_rows2dict self =
     (case mappings_all (cursor_rows self) of (r, res) \<Rightarrow> (r, self\<lparr>cursor_rows := res\<rparr>))"

definition sql_cursor_rows2tuple :: "sql_cursor \<Rightarrow> (error + py_record list) \<times> sql_cursor" where
  "sql_cursor_rows2tuple self =
     (case keys (cursor_rows self) of
        Inl e \<Rightarrow> (Inl e, self)
      | Inr ks \<Rightarrow>
         (case namedtuple ''Record'' ks of
            Inl e \<Rightarrow> (Inl e, self)
          | Inr Record \<Rightarrow>
             (case fetchall (cursor_rows self) of
                (Inl e, res) \<Rightarrow> (Inl e, self\<lparr>cursor_rows := res\<rparr>)
              | (Inr rs, res) \<Rightarrow>
                  (comprehension (new_record Record) rs, self\<lparr>cursor_rows := res\<rparr>))))"

text \<open>
  An ORM object is seen through the columns of its table, in order, and the attribute value
  of each.  A row of an ORM query is a tuple of such objects; \<^verbatim>\<open>sqlalchemy_result\<close> keeps
  the first of each row.
\<close>

type_synonym entity = "(string \<times> sqlval) list"

record sqlalchemy_result =
  result_rows :: "entity list"

definition sqlalchemy_result_init :: "entity list list \<Rightarrow> error + sqlalchemy_result" where
  "sqlalchemy_result_init rows =
     (case comprehension
             (\<lambda>row. case row of [] \<Rightarrow> Inl (IndexError ''tuple index out of range'') | x # _ \<Rightarrow> Inr x)
             rows of
        Inl e \<Rightarrow> Inl e
      | Inr xs \<Rightarrow> Inr \<lparr>result_rows = xs\<rparr>)"

definition sqlalchemy_result_rows2dict :: "sqlalchemy_result \<Rightarrow> dict list" where
  "sqlalchemy_result_rows2dict self =
     map (\<lambda>row. foldl (\<lambda>d (k, v). AList.update k v d) [] row) (result_rows self)"

definition sqlalchemy_result_rows2tuple :: "sqlalchemy_result \<Rightarrow> error + py_record list" where
  "sqlalchemy_result_rows2tuple self =
     (case result_rows self of
        [] \<Rightarrow> Inl (IndexError ''list index out of range'')
      | row0 # _ \<Rightarrow>
         (case namedtuple ''Record'' (map fst row0) of
            Inl e \<Rightarrow> Inl e
          | Inr Record \<Rightarrow>
              comprehension (\<lambda>row. new_record Record (map snd row)) (result_rows self)))"

section \<open>The token verifier: \<^verbatim>\<open>verify_token\<close>\<close>

text \<open>
  Modelled from the spec: the ORM class \<^verbatim>\<open>Token\<close> of \<^verbatim>\<open>api/database/models.py\<close>, which
  is not among the sources.  A token row has the lookup key \<^verbatim>\<open>token\<close> and one flag for
  each capability; the column names are those \<^verbatim>\<open>verify_token\<close> reads.
\<close>

record Token =
  token :: string
  request_highscores :: sqlval
  verify_ban :: sqlval
  create_token :: sqlval
  verify_players :: sqlval

definition Token_entity :: "Token \<Rightarrow> entity" where
  "Token_entity t =
     [(''token'', VStr (token t)),
      (''request_highscores'', request_highscores t),
      (''verify_ban'', verify_ban t),
      (''create_token'', create_token t),
      (''verify_players'', verify_players t)]"

text \<open>\<^verbatim>\<open>select(Token).where(Token.token == token)\<close> against the rows of the token table.\<close>

definition select_Token_where :: "Token list \<Rightarrow> string \<Rightarrow> entity list list" where
  "select_Token_where table tok = map (\<lambda>t. [Token_entity t]) (filter (\<lambda>t. token t = tok) table)"

definition dict_get :: "dict \<Rightarrow> string \<Rightarrow> sqlval \<Rightarrow> sqlval" where
  "dict_get d k dflt = (case map_of d k of None \<Rightarrow> dflt | Some v \<Rightarrow> v)"

text \<open>Lines 100 to 105: the dictionary of all possible checks.\<close>

definition permissions :: "py_record \<Rightarrow> error + dict" where
  "permissions player_token0 =
     (case getattr player_token0 ''request_highscores'' of
        Inl e \<Rightarrow> Inl e
      | Inr hiscore \<Rightarrow>
     (case getattr player_token0 ''verify_ban'' of
        Inl e \<Rightarrow> Inl e
      | Inr ban \<Rightarrow>
     (case getattr player_token0 ''create_token'' of
        Inl e \<Rightarrow> Inl e
      | Inr ct \<Rightarrow>
     (case getattr player_token0 ''verify_players'' of
        Inl e \<Rightarrow> Inl e
      | Inr vp \<Rightarrow>
          Inr (foldl (\<lambda>d (k, v). AList.update k v d) []
                 [(''hiscore'', hiscore), (''ban'', ban), (''create_token'', ct),
                  (''verify_players'', vp)])))))"

definition verify_token :: "Token list \<Rightarrow> string \<Rightarrow> string \<Rightarrow> error + bool" where
  "verify_token table tok verifcation =
     (case sqlalchemy_result_init (select_Token_where table tok) of
        Inl e \<Rightarrow> Inl e
      | Inr data \<Rightarrow>
         if length (result_rows data) = 0
         then Inl (HTTPException 404 (''insufficient permissions: '' @ verifcation))
         else
          (case sqlalchemy_result_rows2tuple data of
             Inl e \<Rightarrow> Inl e
           | Inr player_token \<Rightarrow>
              (case player_token of
                 [] \<Rightarrow> Inl (HTTPException 404 (''insufficient permissions: '' @ verifcation))
               | player_token0 # _ \<Rightarrow>
                  (case permissions player_token0 of
                     Inl e \<Rightarrow> Inl e
                   | Inr perms \<Rightarrow>
                      if py_eq (dict_get perms verifcation (VInt 0)) (VInt 1)
                      then Inr True
                      else Inl (HTTPException 404
                                  (''insufficient permissions: '' @ verifcation))))))"

text \<open>
  The permission registry as section 4.3 of the specification words it: \<^verbatim>\<open>hiscore\<close> is
  the request-highscores flag, \<^verbatim>\<open>ban\<close> the verify-ban flag, \<^verbatim>\<open>create_token\<close> the
  create-token flag, \<^verbatim>\<open>verify_players\<close> the verify-players flag, and no other name has a
  field.  It is the yardstick \<^verbatim>\<open>verify_token\<close> is compared with, not part of its model.
\<close>

definition spec_registry :: "string \<Rightarrow> (Token \<Rightarrow> sqlval) option" where
  "spec_registry p =
     (if p = ''hiscore'' then Some request_highscores
      else if p = ''ban'' then Some verify_ban
      else if p = ''create_token'' then Some create_token
      else if p = ''verify_players'' then Some verify_players
      else None)"

section \<open>The highscore router: \<^verbatim>\<open>verify_and_log_token\<close>\<close>












section \<open>Concrete inputs\<close>

text \<open>An engine on which every operation succeeds, one whose statements fail, a world
  without parameters and one where the caller's dictionary (reference 1) is filled.\<close>

definition example_engine :: engine where
  "example_engine =
     \<lparr>connect = None,
      session_execute = (\<lambda>sql d. Inr \<lparr>result_keys = [''name'', ''score''],
                                        pending = [[VStr ''zezima'', VInt 99]]\<rparr>),
      session_commit = None\<rparr>"

definition failing_engine :: engine where
  "failing_engine =
     \<lparr>connect = None,
      session_execute = (\<lambda>sql d. Inl (DBAPIError ''table does not exist'')),
      session_commit = None\<rparr>"

definition empty_world :: world where
  "empty_world = \<lparr>heap = (\<lambda>r. []), trace = []\<rparr>"

definition caller_world :: world where
  "caller_world =
     \<lparr>heap = (\<lambda>r. if r = 1 then [(''offset'', VInt 999), (''name'', VStr ''zezima'')] else []),
      trace = []\<rparr>"

text \<open>The token of the specification's scenario: \<^verbatim>\<open>abc\<close> may verify bans and nothing
  else.\<close>

definition example_token :: Token where
  "example_token =
     \<lparr>token = ''abc'', request_highscores = VInt 0, verify_ban = VInt 1,
      create_token = VInt 0, verify_players = VInt 0\<rparr>"

text \<open>Two result sets of read statements: two named columns with two rows, and the single
  column of \<^verbatim>\<open>select count(*) from scores\<close>.\<close>

definition example_result :: cursor_result where
  "example_result =
     \<lparr>result_keys = [''name'', ''score''],
      pending = [[VStr ''zezima'', VInt 99], [VStr ''lynx'', VInt 98]]\<rparr>"

definition count_result :: cursor_result where
  "count_result = \<lparr>result_keys = [''count(*)''], pending = [[VInt 5]]\<rparr>"

section \<open>Properties of the query executor\<close>

lemma executed_of_append: "executed_of (xs @ ys) = executed_of xs @ executed_of ys"
  by (induction xs rule: executed_of.induct) simp_all

lemma executed_emit: "executed (emit es w) = executed w @ executed_of es"
  by (simp add: executed_def emit_def executed_of_append)

lemma heap_emit: "heap (emit es w) = heap w"
  by (simp add: emit_def)

lemma executed_setitem: "executed (setitem r k v w) = executed w"
  by (simp add: executed_def setitem_def)

lemma heap_setitem: "heap (setitem r k v w) = (heap w)(r := AList.update k v (heap w r))"
  by (simp add: setitem_def)

lemma paginate_sql: "fst (paginate sql p rc pg w) = sql @ '' limit :offset, :row_count''"
  by (simp add: paginate_def Let_def)

lemma paginate_heap:
  "heap (snd (paginate sql p rc pg w)) =
     (heap w)(p := AList.update ''row_count'' (VInt (if rc \<le> 100000 then rc else 100000))
                     (AList.update ''offset''
                        (VInt (((if pg \<ge> 1 then pg else 1) - 1) * (if rc \<le> 100000 then rc else 100000)))
                        (heap w p)))"
  by (simp add: paginate_def Let_def heap_setitem)

lemma paginate_executed: "executed (snd (paginate sql p rc pg w)) = executed w"
  by (simp add: paginate_def Let_def executed_setitem)

lemma debugging_heap: "heap (debugging dbg hr sql p w) = heap w"
  by (simp add: debugging_def heap_emit)

lemma debugging_executed: "executed (debugging dbg hr sql p w) = executed w"
  by (simp add: debugging_def executed_emit)

lemma run_session_heap: "heap (snd (run_session eng hr sql p w)) = heap w"
  by (simp add: run_session_def Let_def heap_emit split: option.splits sum.splits)

lemma run_session_executed:
  "connect eng = None \<Longrightarrow> executed (snd (run_session eng hr sql p w)) = executed w @ [(sql, heap w p)]"
  by (simp add: run_session_def Let_def heap_emit executed_emit split: option.splits sum.splits)

lemma run_session_not_connected:
  "connect eng = Some e \<Longrightarrow> run_session eng hr sql p w = (Inl e, w)"
  by (simp add: run_session_def)

lemma run_session_result:
  "fst (run_session eng hr sql p w) = Inr (Some c) \<Longrightarrow> hr"
  by (auto simp add: run_session_def Let_def split: option.splits sum.splits if_splits)

lemma execute_sql_read:
  "has_return sql \<Longrightarrow>
   execute_sql eng sql a dbg rc pg w =
     run_session eng True (fst (paginate sql (case a of None \<Rightarrow> default_param | Some r \<Rightarrow> r) rc pg w)) (case a of None \<Rightarrow> default_param | Some r \<Rightarrow> r)
       (debugging dbg True (fst (paginate sql (case a of None \<Rightarrow> default_param | Some r \<Rightarrow> r) rc pg w)) (case a of None \<Rightarrow> default_param | Some r \<Rightarrow> r)
          (snd (paginate sql (case a of None \<Rightarrow> default_param | Some r \<Rightarrow> r) rc pg w)))"
  by (simp add: execute_sql_def Let_def split_beta)

lemma execute_sql_write:
  "\<not> has_return sql \<Longrightarrow>
   execute_sql eng sql a dbg rc pg w =
     run_session eng False sql (case a of None \<Rightarrow> default_param | Some r \<Rightarrow> r)
       (debugging dbg False sql (case a of None \<Rightarrow> default_param | Some r \<Rightarrow> r) w)"
  by (simp add: execute_sql_def Let_def split_beta)

text \<open>
  C4.  For every read execution the row limit that is bound is the caller's when it is at
  most 100000 and exactly 100000 when it is larger; the page that counts is the caller's
  when it is at least 1 and 1 when it is 0 or less; and the offset that is bound is
  (page - 1) times that limit.  The statement reaches \<^verbatim>\<open>session.execute\<close> with the
  pagination clause and these two parameters.
\<close>

theorem execute_sql_pagination:
  assumes "has_return sql" and "connect eng = None"
  shows "\<exists>d limit pg.
           executed (snd (execute_sql eng sql param_arg debug row_count page w)) =
             executed w @ [(sql @ '' limit :offset, :row_count'', d)]
           \<and> map_of d ''row_count'' = Some (VInt limit)
           \<and> map_of d ''offset'' = Some (VInt ((pg - 1) * limit))
           \<and> (row_count \<le> 100000 \<longrightarrow> limit = row_count)
           \<and> (row_count > 100000 \<longrightarrow> limit = 100000)
           \<and> (page \<ge> 1 \<longrightarrow> pg = page)
           \<and> (page \<le> 0 \<longrightarrow> pg = 1)"
proof -
  let ?limit = "if row_count \<le> 100000 then row_count else 100000"
  let ?pg = "if page \<ge> 1 then page else 1"
  let ?p = "case param_arg of None \<Rightarrow> default_param | Some r \<Rightarrow> r"
  let ?d = "AList.update ''row_count'' (VInt ?limit)
              (AList.update ''offset'' (VInt ((?pg - 1) * ?limit)) (heap w ?p))"
  have ex: "executed (snd (execute_sql eng sql param_arg debug row_count page w)) =
              executed w @ [(sql @ '' limit :offset, :row_count'', ?d)]"
    using assms
    by (simp add: execute_sql_read run_session_executed debugging_executed debugging_heap
        paginate_executed paginate_heap paginate_sql)
  have rc: "map_of ?d ''row_count'' = Some (VInt ?limit)"
    by (simp add: update_conv')
  have off: "map_of ?d ''offset'' = Some (VInt ((?pg - 1) * ?limit))"
    by (simp add: update_conv')
  show ?thesis
    apply (rule exI[of _ ?d], rule exI[of _ ?limit], rule exI[of _ ?pg])
    using ex rc off by simp
qed

theorem execute_sql_pagination_witness:
  "has_return ''select * from scores'' \<and> connect example_engine = None \<and>
   (\<exists>d. executed (snd (execute_sql example_engine ''select * from scores'' None False 200000 0 empty_world)) =
           executed empty_world @ [(''select * from scores'' @ '' limit :offset, :row_count'', d)]
         \<and> map_of d ''row_count'' = Some (VInt 100000)
         \<and> map_of d ''offset'' = Some (VInt 0))"
proof -
  have h1: "has_return ''select * from scores''" by code_simp
  have h2: "connect example_engine = None" by (simp add: example_engine_def)
  from execute_sql_pagination[OF h1 h2, of None False 200000 0 empty_world]
  obtain d limit pg where
    "executed (snd (execute_sql example_engine ''select * from scores'' None False 200000 0 empty_world)) =
       executed empty_world @ [(''select * from scores'' @ '' limit :offset, :row_count'', d)]"
    "map_of d ''row_count'' = Some (VInt limit)"
    "map_of d ''offset'' = Some (VInt ((pg - 1) * limit))"
    "limit = 100000" "pg = 1"
    by auto
  then show ?thesis using h1 h2 by auto
qed

text \<open>
  C5.  A statement whose trimmed, lower-cased text does not start with \<^verbatim>\<open>select\<close> is
  executed with its text unchanged and with the caller's parameters as they are: no
  dictionary changes, so no \<^verbatim>\<open>offset\<close> or \<^verbatim>\<open>row_count\<close> is added.  The call never
  returns a cursor; when the store accepts the statement it returns \<^verbatim>\<open>None\<close>.
\<close>

theorem execute_sql_write_unpaginated:
  assumes "\<not> has_return sql"
  shows "heap (snd (execute_sql eng sql param_arg debug row_count page w)) = heap w
       \<and> (connect eng = None \<longrightarrow>
            executed (snd (execute_sql eng sql param_arg debug row_count page w)) =
              executed w @ [(sql, heap w (case param_arg of None \<Rightarrow> default_param | Some r \<Rightarrow> r))])
       \<and> (connect eng \<noteq> None \<longrightarrow>
            executed (snd (execute_sql eng sql param_arg debug row_count page w)) = executed w)
       \<and> (\<forall>c. fst (execute_sql eng sql param_arg debug row_count page w) \<noteq> Inr (Some c))
       \<and> (connect eng = None \<and> session_commit eng = None \<and>
            (\<exists>rows. session_execute eng sql
                      (heap w (case param_arg of None \<Rightarrow> default_param | Some r \<Rightarrow> r)) = Inr rows)
            \<longrightarrow> fst (execute_sql eng sql param_arg debug row_count page w) = Inr None)"
proof -
  let ?p = "case param_arg of None \<Rightarrow> default_param | Some r \<Rightarrow> r"
  let ?w = "debugging debug False sql ?p w"
  have eq: "execute_sql eng sql param_arg debug row_count page w = run_session eng False sql ?p ?w"
    using assms by (rule execute_sql_write)
  have a: "heap (snd (run_session eng False sql ?p ?w)) = heap w"
    by (simp add: run_session_heap debugging_heap)
  have b: "connect eng = None \<Longrightarrow>
           executed (snd (run_session eng False sql ?p ?w)) = executed w @ [(sql, heap w ?p)]"
    by (simp add: run_session_executed debugging_heap debugging_executed)
  have c: "connect eng \<noteq> None \<Longrightarrow> executed (snd (run_session eng False sql ?p ?w)) = executed w"
    by (auto simp add: run_session_not_connected debugging_executed)
  have d: "\<And>c. fst (run_session eng False sql ?p ?w) \<noteq> Inr (Some c)"
    using run_session_result by blast
  have e: "connect eng = None \<Longrightarrow> session_commit eng = None \<Longrightarrow>
           session_execute eng sql (heap w ?p) = Inr rows \<Longrightarrow>
           fst (run_session eng False sql ?p ?w) = Inr None" for rows
    by (simp add: run_session_def Let_def heap_emit debugging_heap)
  show ?thesis
    unfolding eq using a b c d e by blast
qed

theorem execute_sql_write_unpaginated_witness:
  "\<not> has_return ''insert into scores values (:name, :score)'' \<and>
   heap (snd (execute_sql example_engine ''insert into scores values (:name, :score)'' (Some 1) False 5 2 caller_world)) = heap caller_world \<and>
   executed (snd (execute_sql example_engine ''insert into scores values (:name, :score)'' (Some 1) False 5 2 caller_world)) =
     [(''insert into scores values (:name, :score)'', [(''offset'', VInt 999), (''name'', VStr ''zezima'')])] \<and>
   fst (execute_sql example_engine ''insert into scores values (:name, :score)'' (Some 1) False 5 2 caller_world) = Inr None"
proof -
  have h: "\<not> has_return ''insert into scores values (:name, :score)''" by code_simp
  have c: "connect example_engine = None" "session_commit example_engine = None"
    by (simp_all add: example_engine_def)
  have r: "\<exists>rows. session_execute example_engine ''insert into scores values (:name, :score)''
             (heap caller_world (case Some 1 of None \<Rightarrow> default_param | Some r \<Rightarrow> r)) = Inr rows"
    by (simp add: example_engine_def)
  have x: "executed caller_world = []" "heap caller_world 1 = [(''offset'', VInt 999), (''name'', VStr ''zezima'')]"
    by (simp_all add: caller_world_def executed_def)
  show ?thesis
    using h c r x execute_sql_write_unpaginated[OF h, of example_engine "Some 1" False 5 2 caller_world]
    by simp
qed

lemma execute_sql_read_heap:
  assumes "has_return sql"
  shows "heap (snd (execute_sql eng sql a debug row_count page w)) =
           (heap w)((case a of None \<Rightarrow> default_param | Some r \<Rightarrow> r) :=
              AList.update ''row_count'' (VInt (if row_count \<le> 100000 then row_count else 100000))
                (AList.update ''offset''
                   (VInt (((if page \<ge> 1 then page else 1) - 1)
                          * (if row_count \<le> 100000 then row_count else 100000)))
                   (heap w (case a of None \<Rightarrow> default_param | Some r \<Rightarrow> r))))"
  using assms
  by (simp add: execute_sql_read run_session_heap debugging_heap paginate_heap)

lemma execute_sql_read_executed:
  assumes "has_return sql" and "connect eng = None"
  shows "executed (snd (execute_sql eng sql a debug row_count page w)) =
           executed w @
           [(sql @ '' limit :offset, :row_count'',
             AList.update ''row_count'' (VInt (if row_count \<le> 100000 then row_count else 100000))
                (AList.update ''offset''
                   (VInt (((if page \<ge> 1 then page else 1) - 1)
                          * (if row_count \<le> 100000 then row_count else 100000)))
                   (heap w (case a of None \<Rightarrow> default_param | Some r \<Rightarrow> r))))]"
  using assms
  by (simp add: execute_sql_read run_session_executed debugging_executed debugging_heap
      paginate_executed paginate_heap paginate_sql)

lemma execute_sql_write_executed:
  assumes "\<not> has_return sql" and "connect eng = None"
  shows "executed (snd (execute_sql eng sql a debug row_count page w)) =
           executed w @ [(sql, heap w (case a of None \<Rightarrow> default_param | Some r \<Rightarrow> r))]"
  using assms
  by (simp add: execute_sql_write run_session_executed debugging_executed debugging_heap)

text \<open>
  C9.  For every read execution the dictionary that is bound to the query holds the
  executor's pagination values under \<^verbatim>\<open>offset\<close> and \<^verbatim>\<open>row_count\<close>, whatever the
  caller had stored under these names; every other key keeps the caller's value, and the
  dictionary has the caller's keys and these two, each once.
\<close>

theorem execute_sql_overwrites_reserved:
  assumes "has_return sql" and "connect eng = None"
  shows "\<exists>d. executed (snd (execute_sql eng sql (Some r) debug row_count page w)) =
               executed w @ [(sql @ '' limit :offset, :row_count'', d)]
           \<and> map_of d ''offset'' =
               Some (VInt (((if page \<ge> 1 then page else 1) - 1)
                           * (if row_count \<le> 100000 then row_count else 100000)))
           \<and> map_of d ''row_count'' = Some (VInt (if row_count \<le> 100000 then row_count else 100000))
           \<and> (\<forall>k. k \<noteq> ''offset'' \<and> k \<noteq> ''row_count'' \<longrightarrow> map_of d k = map_of (heap w r) k)
           \<and> set (map fst d) = set (map fst (heap w r)) \<union> {''offset'', ''row_count''}
           \<and> (distinct (map fst (heap w r)) \<longrightarrow> distinct (map fst d))"
proof -
  let ?limit = "if row_count \<le> 100000 then row_count else 100000"
  let ?pg = "if page \<ge> 1 then page else 1"
  let ?d = "AList.update ''row_count'' (VInt ?limit)
              (AList.update ''offset'' (VInt ((?pg - 1) * ?limit)) (heap w r))"
  have ex: "executed (snd (execute_sql eng sql (Some r) debug row_count page w)) =
              executed w @ [(sql @ '' limit :offset, :row_count'', ?d)]"
    using assms
    by (simp add: execute_sql_read run_session_executed debugging_executed debugging_heap
        paginate_executed paginate_heap paginate_sql)
  have rc: "map_of ?d ''row_count'' = Some (VInt ?limit)"
    by (simp add: update_conv')
  have off: "map_of ?d ''offset'' = Some (VInt ((?pg - 1) * ?limit))"
    by (simp add: update_conv')
  have other: "\<forall>k. k \<noteq> ''offset'' \<and> k \<noteq> ''row_count'' \<longrightarrow> map_of ?d k = map_of (heap w r) k"
    by (simp add: update_conv')
  have ks: "set (map fst ?d) = set (map fst (heap w r)) \<union> {''offset'', ''row_count''}"
    by (auto simp add: update_keys)
  have dist: "distinct (map fst (heap w r)) \<longrightarrow> distinct (map fst ?d)"
    by (simp add: distinct_update)
  show ?thesis
    apply (rule exI[of _ ?d])
    using ex rc off other ks dist by blast
qed

theorem execute_sql_overwrites_reserved_witness:
  "has_return ''select * from scores where name = :name'' \<and> connect example_engine = None \<and>
   map_of (heap caller_world 1) ''offset'' = Some (VInt 999) \<and>
   (\<exists>d. executed (snd (execute_sql example_engine ''select * from scores where name = :name''
                         (Some 1) False 5 2 caller_world)) =
           [(''select * from scores where name = :name limit :offset, :row_count'', d)]
        \<and> map_of d ''offset'' = Some (VInt 5)
        \<and> map_of d ''row_count'' = Some (VInt 5)
        \<and> map_of d ''name'' = Some (VStr ''zezima''))"
proof -
  have h1: "has_return ''select * from scores where name = :name''" by code_simp
  have h2: "connect example_engine = None" by (simp add: example_engine_def)
  have x: "executed caller_world = []"
    "heap caller_world 1 = [(''offset'', VInt 999), (''name'', VStr ''zezima'')]"
    by (simp_all add: caller_world_def executed_def)
  from execute_sql_overwrites_reserved[OF h1 h2, of 1 False 5 2 caller_world]
  obtain d where
    e: "executed (snd (execute_sql example_engine ''select * from scores where name = :name''
                         (Some 1) False 5 2 caller_world)) =
          executed caller_world @ [(''select * from scores where name = :name'' @ '' limit :offset, :row_count'', d)]"
    and o: "map_of d ''offset'' = Some (VInt (((if (2::int) \<ge> 1 then 2 else 1) - 1) * (if (5::int) \<le> 100000 then 5 else 100000)))"
    and r: "map_of d ''row_count'' = Some (VInt (if (5::int) \<le> 100000 then 5 else 100000))"
    and k: "\<forall>k. k \<noteq> ''offset'' \<and> k \<noteq> ''row_count'' \<longrightarrow> map_of d k = map_of (heap caller_world 1) k"
    by blast
  have e': "executed (snd (execute_sql example_engine ''select * from scores where name = :name''
                         (Some 1) False 5 2 caller_world)) =
           [(''select * from scores where name = :name limit :offset, :row_count'', d)]"
    using e by (simp add: x(1))
  have o': "map_of d ''offset'' = Some (VInt 5)" using o by simp
  have r': "map_of d ''row_count'' = Some (VInt 5)" using r by simp
  have "map_of d ''name'' = map_of (heap caller_world 1) ''name''"
    using k by simp
  then have n': "map_of d ''name'' = Some (VStr ''zezima'')" using x(2) by simp
  have p: "map_of (heap caller_world 1) ''offset'' = Some (VInt 999)" using x(2) by simp
  show ?thesis using h1 h2 p e' o' r' n' by blast
qed

text \<open>
  C10.  A read execution changes the caller's dictionary object itself: after the call the
  object the caller passed holds \<^verbatim>\<open>offset\<close> and \<^verbatim>\<open>row_count\<close>.  A call that omits
  the argument changes the one default dictionary, so a later call that omits it too binds
  what the earlier call left there: here a write statement is bound to the pagination
  values of the read before it.
\<close>

theorem execute_sql_mutates_param:
  assumes "has_return sql"
  shows "heap (snd (execute_sql eng sql (Some r) debug row_count page w)) =
           (heap w)(r :=
              AList.update ''row_count'' (VInt (if row_count \<le> 100000 then row_count else 100000))
                (AList.update ''offset''
                   (VInt (((if page \<ge> 1 then page else 1) - 1)
                          * (if row_count \<le> 100000 then row_count else 100000)))
                   (heap w r)))
       \<and> heap (snd (execute_sql eng sql None debug row_count page w)) =
           (heap w)(default_param :=
              AList.update ''row_count'' (VInt (if row_count \<le> 100000 then row_count else 100000))
                (AList.update ''offset''
                   (VInt (((if page \<ge> 1 then page else 1) - 1)
                          * (if row_count \<le> 100000 then row_count else 100000)))
                   (heap w default_param)))
       \<and> (connect eng = None \<and> \<not> has_return sql2 \<longrightarrow>
            executed (snd (execute_sql eng sql2 None debug2 row_count2 page2
                             (snd (execute_sql eng sql None debug row_count page w)))) =
              executed w @
              [(sql @ '' limit :offset, :row_count'',
                AList.update ''row_count'' (VInt (if row_count \<le> 100000 then row_count else 100000))
                  (AList.update ''offset''
                     (VInt (((if page \<ge> 1 then page else 1) - 1)
                            * (if row_count \<le> 100000 then row_count else 100000)))
                     (heap w default_param))),
               (sql2,
                AList.update ''row_count'' (VInt (if row_count \<le> 100000 then row_count else 100000))
                  (AList.update ''offset''
                     (VInt (((if page \<ge> 1 then page else 1) - 1)
                            * (if row_count \<le> 100000 then row_count else 100000)))
                     (heap w default_param)))])"
proof -
  have a: "heap (snd (execute_sql eng sql (Some r) debug row_count page w)) =
           (heap w)(r :=
              AList.update ''row_count'' (VInt (if row_count \<le> 100000 then row_count else 100000))
                (AList.update ''offset''
                   (VInt (((if page \<ge> 1 then page else 1) - 1)
                          * (if row_count \<le> 100000 then row_count else 100000)))
                   (heap w r)))"
    using execute_sql_read_heap[OF assms, of eng "Some r"] by simp
  have b: "heap (snd (execute_sql eng sql None debug row_count page w)) =
           (heap w)(default_param :=
              AList.update ''row_count'' (VInt (if row_count \<le> 100000 then row_count else 100000))
                (AList.update ''offset''
                   (VInt (((if page \<ge> 1 then page else 1) - 1)
                          * (if row_count \<le> 100000 then row_count else 100000)))
                   (heap w default_param)))"
    using execute_sql_read_heap[OF assms, of eng None] by simp
  have c: "executed (snd (execute_sql eng sql2 None debug2 row_count2 page2
                             (snd (execute_sql eng sql None debug row_count page w)))) =
              executed w @
              [(sql @ '' limit :offset, :row_count'',
                AList.update ''row_count'' (VInt (if row_count \<le> 100000 then row_count else 100000))
                  (AList.update ''offset''
                     (VInt (((if page \<ge> 1 then page else 1) - 1)
                            * (if row_count \<le> 100000 then row_count else 100000)))
                     (heap w default_param))),
               (sql2,
                AList.update ''row_count'' (VInt (if row_count \<le> 100000 then row_count else 100000))
                  (AList.update ''offset''
                     (VInt (((if page \<ge> 1 then page else 1) - 1)
                            * (if row_count \<le> 100000 then row_count else 100000)))
                     (heap w default_param)))]"
    if "connect eng = None" and "\<not> has_return sql2"
    using execute_sql_write_executed[OF that(2) that(1), of None debug2 row_count2 page2
        "snd (execute_sql eng sql None debug row_count page w)"]
      execute_sql_read_executed[OF assms that(1), of None debug row_count page w] b
    by simp
  show ?thesis using a b c by blast
qed

theorem execute_sql_mutates_param_witness:
  "has_return ''select * from scores'' \<and>
   heap caller_world 1 = [(''offset'', VInt 999), (''name'', VStr ''zezima'')] \<and>
   heap (snd (execute_sql example_engine ''select * from scores'' (Some 1) False 5 2 caller_world)) 1 =
     [(''offset'', VInt 5), (''name'', VStr ''zezima''), (''row_count'', VInt 5)] \<and>
   heap empty_world default_param = [] \<and>
   heap (snd (execute_sql example_engine ''select * from scores'' None False 5 2 empty_world)) default_param =
     [(''offset'', VInt 5), (''row_count'', VInt 5)] \<and>
   connect example_engine = None \<and> \<not> has_return ''delete from scores'' \<and>
   executed (snd (execute_sql example_engine ''delete from scores'' None False 100000 1
                    (snd (execute_sql example_engine ''select * from scores'' None False 5 2 empty_world)))) =
     [(''select * from scores limit :offset, :row_count'', [(''offset'', VInt 5), (''row_count'', VInt 5)]),
      (''delete from scores'', [(''offset'', VInt 5), (''row_count'', VInt 5)])]"
proof -
  have h1: "has_return ''select * from scores''" by code_simp
  have h2: "connect example_engine = None" by (simp add: example_engine_def)
  have h3: "\<not> has_return ''delete from scores''" by code_simp
  have x: "heap caller_world 1 = [(''offset'', VInt 999), (''name'', VStr ''zezima'')]"
    "heap empty_world default_param = []" "executed empty_world = []"
    by (simp_all add: caller_world_def empty_world_def executed_def)
  note t1 = execute_sql_mutates_param[OF h1, of example_engine 1 False 5 2 caller_world
      "''delete from scores''" False 100000 1]
  note t2 = execute_sql_mutates_param[OF h1, of example_engine 1 False 5 2 empty_world
      "''delete from scores''" False 100000 1]
  have a: "heap (snd (execute_sql example_engine ''select * from scores'' (Some 1) False 5 2 caller_world)) 1 =
     [(''offset'', VInt 5), (''name'', VStr ''zezima''), (''row_count'', VInt 5)]"
    using t1 x(1) by simp
  have b: "heap (snd (execute_sql example_engine ''select * from scores'' None False 5 2 empty_world)) default_param =
     [(''offset'', VInt 5), (''row_count'', VInt 5)]"
    using t2 x(2) by simp
  have c: "executed (snd (execute_sql example_engine ''delete from scores'' None False 100000 1
                    (snd (execute_sql example_engine ''select * from scores'' None False 5 2 empty_world)))) =
     [(''select * from scores limit :offset, :row_count'', [(''offset'', VInt 5), (''row_count'', VInt 5)]),
      (''delete from scores'', [(''offset'', VInt 5), (''row_count'', VInt 5)])]"
    using t2 h2 h3 x(2) x(3) by simp
  show ?thesis using h1 h2 h3 x a b c by blast
qed

text \<open>
  C6.  The claim is that every exit path releases the connection and disposes of the
  engine.  When \<^verbatim>\<open>session.execute\<close> raises, the two \<^verbatim>\<open>async with\<close> blocks close the
  session and the connection, but the exception leaves the function before
  \<^verbatim>\<open>engine.dispose()\<close>, the statement after the blocks: the trace of the failing call
  has no \<open>EngineDispose\<close>, the trace of the successful call ends with it.
\<close>

theorem execute_sql_error_skips_dispose:
  "fst (execute_sql failing_engine ''select * from missing'' None False 100000 1 empty_world) =
     Inl (DBAPIError ''table does not exist'')
   \<and> trace (snd (execute_sql failing_engine ''select * from missing'' None False 100000 1 empty_world)) =
     [EngineConnect, SessionOpen,
      SessionExecute ''select * from missing limit :offset, :row_count''
        [(''offset'', VInt 0), (''row_count'', VInt 100000)],
      SessionClose, ConnectionClose]
   \<and> EngineDispose \<notin> set (trace (snd (execute_sql failing_engine ''select * from missing'' None False 100000 1 empty_world)))
   \<and> trace (snd (execute_sql example_engine ''select * from missing'' None False 100000 1 empty_world)) =
     [EngineConnect, SessionOpen,
      SessionExecute ''select * from missing limit :offset, :row_count''
        [(''offset'', VInt 0), (''row_count'', VInt 100000)],
      SessionCommit, SessionClose, ConnectionClose, EngineDispose]"
proof -
  have h: "has_return ''select * from missing''" by code_simp
  have r: "execute_sql failing_engine ''select * from missing'' None False 100000 1 empty_world =
        (Inl (DBAPIError ''table does not exist''),
         \<lparr>heap = (\<lambda>r. [])(default_param := [(''offset'', VInt 0), (''row_count'', VInt 100000)]),
          trace = [EngineConnect, SessionOpen,
            SessionExecute ''select * from missing limit :offset, :row_count''
              [(''offset'', VInt 0), (''row_count'', VInt 100000)],
            SessionClose, ConnectionClose]\<rparr>)"
    by (simp add: execute_sql_read[OF h] paginate_def debugging_def run_session_def
        failing_engine_def empty_world_def setitem_def emit_def Let_def)
  have s: "trace (snd (execute_sql example_engine ''select * from missing'' None False 100000 1 empty_world)) =
     [EngineConnect, SessionOpen,
      SessionExecute ''select * from missing limit :offset, :row_count''
        [(''offset'', VInt 0), (''row_count'', VInt 100000)],
      SessionCommit, SessionClose, ConnectionClose, EngineDispose]"
    by (simp add: execute_sql_read[OF h] paginate_def debugging_def run_session_def
        example_engine_def empty_world_def setitem_def emit_def Let_def)
  show ?thesis unfolding r using s by simp
qed

section \<open>Properties of the token verifier\<close>

lemma sqlalchemy_result_init_Token:
  "sqlalchemy_result_init (map (\<lambda>t. [Token_entity t]) ts) = Inr \<lparr>result_rows = map Token_entity ts\<rparr>"
proof -
  have "comprehension (\<lambda>row. case row of [] \<Rightarrow> Inl (IndexError ''tuple index out of range'') | x # _ \<Rightarrow> Inr x)
          (map (\<lambda>t. [Token_entity t]) ts) = Inr (map Token_entity ts)"
    by (induction ts) simp_all
  then show ?thesis by (simp add: sqlalchemy_result_init_def)
qed

lemma namedtuple_Token:
  "namedtuple ''Record'' [''token'', ''request_highscores'', ''verify_ban'', ''create_token'', ''verify_players'']
     = Inr \<lparr>typename = ''Record'', class_fields = [''token'', ''request_highscores'', ''verify_ban'', ''create_token'', ''verify_players'']\<rparr>"
  by code_simp

lemma new_records_Token:
  "comprehension (\<lambda>row. new_record \<lparr>typename = ''Record'', class_fields = [''token'', ''request_highscores'', ''verify_ban'', ''create_token'', ''verify_players'']\<rparr> (map snd row))
     (map Token_entity ts) =
   Inr (map (\<lambda>t. \<lparr>record_fields = [''token'', ''request_highscores'', ''verify_ban'', ''create_token'', ''verify_players''],
                   record_values = [VStr (token t), request_highscores t, verify_ban t, create_token t, verify_players t]\<rparr>) ts)"
  by (induction ts) (simp_all add: new_record_def Token_entity_def)

lemma rows2tuple_Token:
  "sqlalchemy_result_rows2tuple \<lparr>result_rows = map Token_entity (t # ts)\<rparr> =
   Inr (map (\<lambda>t. \<lparr>record_fields = [''token'', ''request_highscores'', ''verify_ban'', ''create_token'', ''verify_players''],
                   record_values = [VStr (token t), request_highscores t, verify_ban t, create_token t, verify_players t]\<rparr>) (t # ts))"
proof -
  have "map fst (Token_entity t) = [''token'', ''request_highscores'', ''verify_ban'', ''create_token'', ''verify_players'']"
    by (simp add: Token_entity_def)
  then show ?thesis
    using new_records_Token[of "t # ts"]
    by (simp add: sqlalchemy_result_rows2tuple_def namedtuple_Token)
qed

lemma permissions_Token:
  "permissions \<lparr>record_fields = [''token'', ''request_highscores'', ''verify_ban'', ''create_token'', ''verify_players''],
                record_values = [VStr (token t), request_highscores t, verify_ban t, create_token t, verify_players t]\<rparr>
   = Inr [(''hiscore'', request_highscores t), (''ban'', verify_ban t),
          (''create_token'', create_token t), (''verify_players'', verify_players t)]"
  by (simp add: permissions_def getattr_def)

lemma dict_get_permissions:
  "dict_get [(''hiscore'', request_highscores t), (''ban'', verify_ban t),
             (''create_token'', create_token t), (''verify_players'', verify_players t)] p (VInt 0)
   = (case spec_registry p of None \<Rightarrow> VInt 0 | Some f \<Rightarrow> f t)"
  by (simp add: dict_get_def spec_registry_def)

lemma verify_token_first:
  "verify_token table tok p =
     (case filter (\<lambda>t. token t = tok) table of
        [] \<Rightarrow> Inl (HTTPException 404 (''insufficient permissions: '' @ p))
      | t # _ \<Rightarrow>
          if py_eq (case spec_registry p of None \<Rightarrow> VInt 0 | Some f \<Rightarrow> f t) (VInt 1)
          then Inr True
          else Inl (HTTPException 404 (''insufficient permissions: '' @ p)))"
proof -
  let ?ts = "filter (\<lambda>t. token t = tok) table"
  have init: "sqlalchemy_result_init (select_Token_where table tok) =
                Inr \<lparr>result_rows = map Token_entity ?ts\<rparr>"
    unfolding select_Token_where_def by (rule sqlalchemy_result_init_Token)
  show ?thesis
  proof (cases ?ts)
    case Nil
    then show ?thesis
      unfolding verify_token_def init by simp
  next
    case (Cons t ts)
    have "sqlalchemy_result_rows2tuple \<lparr>result_rows = map Token_entity ?ts\<rparr> =
            Inr (map (\<lambda>t. \<lparr>record_fields = [''token'', ''request_highscores'', ''verify_ban'', ''create_token'', ''verify_players''],
                   record_values = [VStr (token t), request_highscores t, verify_ban t, create_token t, verify_players t]\<rparr>) (t # ts))"
      unfolding Cons by (rule rows2tuple_Token)
    then show ?thesis
      unfolding verify_token_def init
      by (simp add: Cons permissions_Token dict_get_permissions)
  qed
qed

lemma verify_token_cases:
  "verify_token table tok p = Inr True \<or>
   verify_token table tok p = Inl (HTTPException 404 (''insufficient permissions: '' @ p))"
  by (simp add: verify_token_first split: list.split)

lemma filter_distinct_token:
  assumes "distinct (map token table)" and "r \<in> set table" and "token r = tok"
  shows "filter (\<lambda>t. token t = tok) table = [r]"
  using assms
proof (induction table)
  case Nil
  then show ?case by simp
next
  case (Cons a table)
  show ?case
  proof (cases "a = r")
    case True
    have "token r \<notin> token ` set table"
      using Cons.prems(1) True by simp
    then have "\<forall>x \<in> set table. token x \<noteq> tok"
      using Cons.prems(3) by (metis imageI)
    then have "filter (\<lambda>t. token t = tok) table = []"
      by (simp add: filter_empty_conv)
    then show ?thesis using True Cons.prems by simp
  next
    case False
    then have "r \<in> set table" using Cons.prems by simp
    then have "token a \<noteq> tok" using Cons.prems by auto
    then show ?thesis using Cons \<open>r \<in> set table\<close> by simp
  qed
qed

text \<open>
  C1.  When the token table holds each token once, \<^verbatim>\<open>verify_token\<close> returns
  \<^verbatim>\<open>True\<close> exactly when a row with that token exists and the registry resolves the
  permission name to a flag of that row that equals 1; in every other case it raises the
  \<^verbatim>\<open>HTTPException\<close> whose detail names the permission that was asked for.  (The code
  reads the first row the query returns, see \<open>verify_token_first\<close>; with one row for each
  token that is the row.)
\<close>

theorem verify_token_iff:
  assumes "distinct (map token table)"
  shows "(verify_token table t p = Inr True \<longleftrightarrow>
            (\<exists>r \<in> set table. token r = t \<and>
               (\<exists>f. spec_registry p = Some f \<and> py_eq (f r) (VInt 1))))
       \<and> (verify_token table t p = Inr True \<or>
          verify_token table t p = Inl (HTTPException 404 (''insufficient permissions: '' @ p)))"
proof -
  have "verify_token table t p = Inr True \<longleftrightarrow>
            (\<exists>r \<in> set table. token r = t \<and>
               (\<exists>f. spec_registry p = Some f \<and> py_eq (f r) (VInt 1)))"
  proof
    assume ok: "verify_token table t p = Inr True"
    then obtain r rs where f: "filter (\<lambda>x. token x = t) table = r # rs"
      by (auto simp add: verify_token_first split: list.splits)
    then have "r \<in> set (filter (\<lambda>x. token x = t) table)" by simp
    then have r: "r \<in> set table" "token r = t" by simp_all
    from ok f have "py_eq (case spec_registry p of None \<Rightarrow> VInt 0 | Some f \<Rightarrow> f r) (VInt 1)"
      by (simp add: verify_token_first split: if_splits)
    then have "\<exists>f. spec_registry p = Some f \<and> py_eq (f r) (VInt 1)"
      by (cases "spec_registry p") simp_all
    with r show "\<exists>r \<in> set table. token r = t \<and>
               (\<exists>f. spec_registry p = Some f \<and> py_eq (f r) (VInt 1))" by blast
  next
    assume "\<exists>r \<in> set table. token r = t \<and>
               (\<exists>f. spec_registry p = Some f \<and> py_eq (f r) (VInt 1))"
    then obtain r f where r: "r \<in> set table" "token r = t"
      and f: "spec_registry p = Some f" "py_eq (f r) (VInt 1)" by blast
    have "filter (\<lambda>x. token x = t) table = [r]"
      using filter_distinct_token[OF assms r] .
    then show "verify_token table t p = Inr True"
      using f by (simp add: verify_token_first)
  qed
  then show ?thesis using verify_token_cases by blast
qed

theorem verify_token_iff_witness:
  "distinct (map token [example_token]) \<and>
   verify_token [example_token] ''abc'' ''ban'' = Inr True \<and>
   verify_token [example_token] ''abc'' ''hiscore'' =
     Inl (HTTPException 404 ''insufficient permissions: hiscore'') \<and>
   verify_token [example_token] ''missing'' ''ban'' =
     Inl (HTTPException 404 ''insufficient permissions: ban'')"
proof -
  have d: "distinct (map token [example_token])" by simp
  have a: "verify_token [example_token] ''abc'' ''ban'' = Inr True"
  proof -
    have "\<exists>r \<in> set [example_token]. token r = ''abc'' \<and>
            (\<exists>f. spec_registry ''ban'' = Some f \<and> py_eq (f r) (VInt 1))"
      by (simp add: example_token_def spec_registry_def)
    then show ?thesis using verify_token_iff[OF d, of "''abc''" "''ban''"] by blast
  qed
  have b: "verify_token [example_token] ''abc'' ''hiscore'' =
     Inl (HTTPException 404 ''insufficient permissions: hiscore'')"
  proof -
    have "\<not> (\<exists>r \<in> set [example_token]. token r = ''abc'' \<and>
            (\<exists>f. spec_registry ''hiscore'' = Some f \<and> py_eq (f r) (VInt 1)))"
      by (simp add: example_token_def spec_registry_def)
    then have "verify_token [example_token] ''abc'' ''hiscore'' =
       Inl (HTTPException 404 (''insufficient permissions: '' @ ''hiscore''))"
      using verify_token_iff[OF d, of "''abc''" "''hiscore''"] by blast
    then show ?thesis by simp
  qed
  have c: "verify_token [example_token] ''missing'' ''ban'' =
     Inl (HTTPException 404 ''insufficient permissions: ban'')"
  proof -
    have "\<not> (\<exists>r \<in> set [example_token]. token r = ''missing'' \<and>
            (\<exists>f. spec_registry ''ban'' = Some f \<and> py_eq (f r) (VInt 1)))"
      by (simp add: example_token_def)
    then have "verify_token [example_token] ''missing'' ''ban'' =
       Inl (HTTPException 404 (''insufficient permissions: '' @ ''ban''))"
      using verify_token_iff[OF d, of "''missing''" "''ban''"] by blast
    then show ?thesis by simp
  qed
  show ?thesis using d a b c by blast
qed

lemma spec_registry_unknown:
  "p \<notin> set [''hiscore'', ''ban'', ''create_token'', ''verify_players''] \<Longrightarrow> spec_registry p = None"
  by (simp add: spec_registry_def)

text \<open>
  C2.  For a permission name that is none of \<^verbatim>\<open>hiscore\<close>, \<^verbatim>\<open>ban\<close>,
  \<^verbatim>\<open>create_token\<close> and \<^verbatim>\<open>verify_players\<close>, \<^verbatim>\<open>verify_token\<close> raises the same
  \<^verbatim>\<open>HTTPException\<close> as for a flag that is not 1, whatever the token and the table: no
  other exception, in particular no missing-key fault.
\<close>

theorem verify_token_unknown_permission:
  assumes "p \<notin> set [''hiscore'', ''ban'', ''create_token'', ''verify_players'']"
  shows "verify_token table t p = Inl (HTTPException 404 (''insufficient permissions: '' @ p))"
  using spec_registry_unknown[OF assms]
  by (simp add: verify_token_first split: list.split)

theorem verify_token_unknown_permission_witness:
  "''admin'' \<notin> set [''hiscore'', ''ban'', ''create_token'', ''verify_players''] \<and>
   verify_token [example_token] ''abc'' ''admin'' =
     Inl (HTTPException 404 ''insufficient permissions: admin'')"
proof -
  have h: "''admin'' \<notin> set [''hiscore'', ''ban'', ''create_token'', ''verify_players'']" by simp
  show ?thesis
    using h verify_token_unknown_permission[OF h, of "[example_token]" "''abc''"] by simp
qed

section \<open>Properties of the highscore router\<close>






section \<open>Properties of the result classes\<close>

text \<open>
  C7.  Asking for records on a result without rows and without columns raises: for
  \<^verbatim>\<open>sqlalchemy_result\<close> the columns are read from the first row, which an empty result
  does not have (\<^verbatim>\<open>IndexError\<close>); for \<^verbatim>\<open>sql_cursor\<close> a result without columns is one
  that returns no rows, whose \<^verbatim>\<open>keys()\<close> raises.  Neither method catches the exception:
  the outcome is the error, not an empty list.
\<close>

theorem rows2tuple_empty_result_fails:
  "sqlalchemy_result_init [] = Inr \<lparr>result_rows = []\<rparr>
   \<and> sqlalchemy_result_rows2tuple \<lparr>result_rows = []\<rparr> = Inl (IndexError ''list index out of range'')
   \<and> sql_cursor_rows2tuple \<lparr>cursor_rows = \<lparr>result_keys = [], pending = []\<rparr>\<rparr> =
       (Inl no_rows_error, \<lparr>cursor_rows = \<lparr>result_keys = [], pending = []\<rparr>\<rparr>)"
  by (simp add: sqlalchemy_result_init_def sqlalchemy_result_rows2tuple_def
      sql_cursor_rows2tuple_def keys_def returns_rows_def)

lemma check_names_None:
  "\<forall>n \<in> set ns. isidentifier n \<and> \<not> iskeyword n \<Longrightarrow> check_names ns = None"
  by (induction ns) simp_all

lemma check_fields_None:
  "\<forall>n \<in> set ns. \<not> startswith n ''_'' \<Longrightarrow> distinct ns \<Longrightarrow> set ns \<inter> set seen = {} \<Longrightarrow>
   check_fields seen ns = None"
proof (induction ns arbitrary: seen)
  case Nil
  then show ?case by simp
next
  case (Cons n ns)
  have "set ns \<inter> set (n # seen) = {}" using Cons.prems by auto
  then have "check_fields (n # seen) ns = None" using Cons by simp
  then show ?case using Cons.prems by auto
qed

lemma check_arguments_None:
  "distinct (map nfkc ns) \<Longrightarrow> set (map nfkc ns) \<inter> set seen = {} \<Longrightarrow>
   check_arguments seen ns = None"
proof (induction ns arbitrary: seen)
  case Nil
  then show ?case by simp
next
  case (Cons n ns)
  have "set (map nfkc ns) \<inter> set (nfkc n # seen) = {}" using Cons.prems by auto
  moreover have "distinct (map nfkc ns)" using Cons.prems by simp
  ultimately have "check_arguments (nfkc n # seen) ns = None" by (rule Cons.IH[rotated])
  moreover have "nfkc n \<notin> set seen" using Cons.prems by auto
  ultimately show ?case by simp
qed

lemma Record_typename: "isidentifier ''Record'' \<and> \<not> iskeyword ''Record''"
  by code_simp

lemma namedtuple_valid:
  assumes "\<forall>n \<in> set ns. isidentifier n \<and> \<not> iskeyword n \<and> \<not> startswith n ''_''"
    and "distinct (map nfkc ns)"
  shows "namedtuple ''Record'' ns = Inr \<lparr>typename = ''Record'', class_fields = ns\<rparr>"
proof -
  have d: "distinct ns" using assms(2) by (simp add: distinct_map)
  have a: "check_names (''Record'' # ns) = None"
    using assms(1) Record_typename by (intro check_names_None) auto
  have b: "check_fields [] ns = None"
    using assms(1) d by (intro check_fields_None) auto
  have c: "check_arguments [] ns = None"
    using assms(2) by (intro check_arguments_None) auto
  show ?thesis unfolding namedtuple_def a b c by simp
qed

lemma comprehension_new_record:
  "\<forall>r \<in> set rs. length r = length (class_fields cls) \<Longrightarrow>
   comprehension (new_record cls) rs =
     Inr (map (\<lambda>r. \<lparr>record_fields = class_fields cls, record_values = r\<rparr>) rs)"
  by (induction rs) (simp_all add: new_record_def)

lemma map_of_zip_total:
  "length ys = length xs \<Longrightarrow> k \<in> set xs \<Longrightarrow> \<exists>v. map_of (zip xs ys) k = Some v"
  by (metis map_of_zip_is_None not_None_eq)

lemma namedtuple_normalised_duplicate:
  "namedtuple ''Record'' [''a'', [CHR 0xAA]] =
     Inl (SyntaxError ''duplicate argument in function definition'')"
  by code_simp

lemma namedtuple_count_star:
  "namedtuple ''Record'' [''count(*)''] =
     Inl (ValueError ''Type names and field names must be valid identifiers'')"
  by code_simp

text \<open>
  C8, as amended.  For a result set whose column names are Python identifiers, none a
  keyword, none starting with an underscore, and no two equal after Python's normalisation
  of identifiers (NFKC), whose rows hold one value for each column and are not fetched yet,
  \<^verbatim>\<open>rows2dict\<close> and \<^verbatim>\<open>rows2tuple\<close> both succeed, give one element for each row, and
  for every row and every column name the record's field and the mapping's entry hold the
  same value.
\<close>

theorem rows2dict_rows2tuple_agree:
  assumes "\<forall>n \<in> set (result_keys (cursor_rows self)).
              isidentifier n \<and> \<not> iskeyword n \<and> \<not> startswith n ''_''"
    and "distinct (map nfkc (result_keys (cursor_rows self)))"
    and "result_keys (cursor_rows self) \<noteq> []"
    and "\<forall>r \<in> set (pending (cursor_rows self)). length r = length (result_keys (cursor_rows self))"
  shows "\<exists>recs maps.
           fst (sql_cursor_rows2tuple self) = Inr recs
         \<and> fst (sql_cursor_rows2dict self) = Inr maps
         \<and> length recs = length (pending (cursor_rows self))
         \<and> length maps = length (pending (cursor_rows self))
         \<and> (\<forall>i < length (pending (cursor_rows self)). \<forall>k \<in> set (result_keys (cursor_rows self)).
               \<exists>v. getattr (recs ! i) k = Inr v \<and> map_of (maps ! i) k = Some v)"
proof -
  let ?ks = "result_keys (cursor_rows self)"
  let ?rs = "pending (cursor_rows self)"
  let ?recs = "map (\<lambda>r. \<lparr>record_fields = ?ks, record_values = r\<rparr>) ?rs"
  let ?maps = "map (\<lambda>r. zip ?ks r) ?rs"
  have nt: "namedtuple ''Record'' ?ks = Inr \<lparr>typename = ''Record'', class_fields = ?ks\<rparr>"
    using assms(1,2) by (rule namedtuple_valid)
  have "\<forall>r \<in> set ?rs. length r = length (class_fields \<lparr>typename = ''Record'', class_fields = ?ks\<rparr>)"
    using assms(4) by simp
  then have cr: "comprehension (new_record \<lparr>typename = ''Record'', class_fields = ?ks\<rparr>) ?rs =
      Inr (map (\<lambda>r. \<lparr>record_fields = class_fields \<lparr>typename = ''Record'', class_fields = ?ks\<rparr>,
                       record_values = r\<rparr>) ?rs)"
    by (rule comprehension_new_record)
  have ky: "keys (cursor_rows self) = Inr ?ks"
    using assms(3) by (simp add: keys_def returns_rows_def)
  have fa: "fetchall (cursor_rows self) = (Inr ?rs, (cursor_rows self)\<lparr>pending := []\<rparr>)"
    using assms(3) by (simp add: fetchall_def returns_rows_def)
  have t: "fst (sql_cursor_rows2tuple self) = Inr ?recs"
    unfolding sql_cursor_rows2tuple_def ky by (simp add: nt fa cr)
  have ma: "mappings_all (cursor_rows self) = (Inr ?maps, (cursor_rows self)\<lparr>pending := []\<rparr>)"
    using assms(3) by (simp add: mappings_all_def returns_rows_def)
  have d: "fst (sql_cursor_rows2dict self) = Inr ?maps"
    unfolding sql_cursor_rows2dict_def ma by simp
  have agree: "\<exists>v. getattr (?recs ! i) k = Inr v \<and> map_of (?maps ! i) k = Some v"
    if i: "i < length ?rs" and k: "k \<in> set ?ks" for i k
  proof -
    have "length (?rs ! i) = length ?ks" using assms(4) i by simp
    then have "\<exists>v. map_of (zip ?ks (?rs ! i)) k = Some v"
      using k by (rule map_of_zip_total)
    then obtain v where v: "map_of (zip ?ks (?rs ! i)) k = Some v" ..
    have g: "getattr (?recs ! i) k = Inr v"
      using i v by (simp add: getattr_def)
    have m: "map_of (?maps ! i) k = Some v"
      using i v by simp
    show ?thesis using g m by (intro exI[of _ v] conjI)
  qed
  have all: "\<forall>i < length ?rs. \<forall>k \<in> set ?ks.
               \<exists>v. getattr (?recs ! i) k = Inr v \<and> map_of (?maps ! i) k = Some v"
    by (intro allI impI ballI agree)
  have len: "length ?recs = length ?rs" "length ?maps = length ?rs" by simp_all
  show ?thesis
    by (intro exI[of _ ?recs] exI[of _ ?maps] conjI t d len all)
qed

theorem rows2dict_rows2tuple_agree_witness:
  "list_all (\<lambda>n. isidentifier n \<and> \<not> iskeyword n \<and> \<not> startswith n ''_'') (result_keys example_result)
   \<and> distinct (map nfkc (result_keys example_result)) \<and> result_keys example_result \<noteq> []
   \<and> list_all (\<lambda>r. length r = length (result_keys example_result)) (pending example_result)
   \<and> (\<exists>recs maps.
           fst (sql_cursor_rows2tuple \<lparr>cursor_rows = example_result\<rparr>) = Inr recs
         \<and> fst (sql_cursor_rows2dict \<lparr>cursor_rows = example_result\<rparr>) = Inr maps
         \<and> length recs = 2 \<and> length maps = 2
         \<and> (\<exists>v. getattr (recs ! 1) ''score'' = Inr v \<and> map_of (maps ! 1) ''score'' = Some v))"
proof -
  let ?self = "\<lparr>cursor_rows = example_result\<rparr>"
  have k: "result_keys example_result = [''name'', ''score'']"
    "pending example_result = [[VStr ''zezima'', VInt 99], [VStr ''lynx'', VInt 98]]"
    by (simp_all add: example_result_def)
  have v1: "isidentifier ''name'' \<and> \<not> iskeyword ''name'' \<and> \<not> startswith ''name'' ''_''"
    by code_simp
  have v2: "isidentifier ''score'' \<and> \<not> iskeyword ''score'' \<and> \<not> startswith ''score'' ''_''"
    by code_simp
  have h1: "\<forall>n \<in> set (result_keys (cursor_rows ?self)).
              isidentifier n \<and> \<not> iskeyword n \<and> \<not> startswith n ''_''"
    using v1 v2 by (simp add: k)
  have n: "nfkc ''name'' \<noteq> nfkc ''score''" by code_simp
  have h2: "distinct (map nfkc (result_keys (cursor_rows ?self)))" using n by (simp add: k)
  have h3: "result_keys (cursor_rows ?self) \<noteq> []" by (simp add: k)
  have h4: "\<forall>r \<in> set (pending (cursor_rows ?self)).
              length r = length (result_keys (cursor_rows ?self))"
    by (simp add: k)
  from rows2dict_rows2tuple_agree[OF h1 h2 h3 h4]
  obtain recs where "\<exists>maps.
           fst (sql_cursor_rows2tuple ?self) = Inr recs
         \<and> fst (sql_cursor_rows2dict ?self) = Inr maps
         \<and> length recs = length (pending (cursor_rows ?self))
         \<and> length maps = length (pending (cursor_rows ?self))
         \<and> (\<forall>i < length (pending (cursor_rows ?self)). \<forall>k \<in> set (result_keys (cursor_rows ?self)).
               \<exists>v. getattr (recs ! i) k = Inr v \<and> map_of (maps ! i) k = Some v)" ..
  then obtain maps where p:
          "fst (sql_cursor_rows2tuple ?self) = Inr recs
         \<and> fst (sql_cursor_rows2dict ?self) = Inr maps
         \<and> length recs = length (pending (cursor_rows ?self))
         \<and> length maps = length (pending (cursor_rows ?self))
         \<and> (\<forall>i < length (pending (cursor_rows ?self)). \<forall>k \<in> set (result_keys (cursor_rows ?self)).
               \<exists>v. getattr (recs ! i) k = Inr v \<and> map_of (maps ! i) k = Some v)" ..
  have r1: "fst (sql_cursor_rows2tuple ?self) = Inr recs" using p by (rule conjunct1)
  note p2 = p[THEN conjunct2]
  have r2: "fst (sql_cursor_rows2dict ?self) = Inr maps" using p2 by (rule conjunct1)
  note p3 = p2[THEN conjunct2]
  have "length recs = length (pending (cursor_rows ?self))" using p3 by (rule conjunct1)
  then have l1: "length recs = 2" by (simp add: k)
  note p4 = p3[THEN conjunct2]
  have "length maps = length (pending (cursor_rows ?self))" using p4 by (rule conjunct1)
  then have l2: "length maps = 2" by (simp add: k)
  note a = p4[THEN conjunct2]
  have i: "(1::nat) < length (pending (cursor_rows ?self))" by (simp add: k)
  have m: "''score'' \<in> set (result_keys (cursor_rows ?self))" by (simp add: k)
  have s: "\<exists>v. getattr (recs ! 1) ''score'' = Inr v \<and> map_of (maps ! 1) ''score'' = Some v"
    using a[rule_format, OF i m] .
  have g1: "list_all (\<lambda>n. isidentifier n \<and> \<not> iskeyword n \<and> \<not> startswith n ''_'') (result_keys example_result)"
    using v1 v2 by (simp add: k)
  have g2: "distinct (map nfkc (result_keys example_result))" using n by (simp add: k)
  have g3: "result_keys example_result \<noteq> []" by (simp add: k)
  have g4: "list_all (\<lambda>r. length r = length (result_keys example_result)) (pending example_result)"
    by (simp add: k)
  show ?thesis
    by (intro conjI exI[of _ recs] exI[of _ maps] g1 g2 g3 g4 r1 r2 l1 l2 s)
qed

text \<open>
  The claim as stated, for every read result set, fails on the result of
  \<^verbatim>\<open>select count(*) from scores\<close>: the mappings are built, the records are not.
\<close>

theorem rows2tuple_count_star_counterexample:
  "fst (sql_cursor_rows2dict \<lparr>cursor_rows = count_result\<rparr>) = Inr [[(''count(*)'', VInt 5)]]
   \<and> fst (sql_cursor_rows2tuple \<lparr>cursor_rows = count_result\<rparr>) =
       Inl (ValueError ''Type names and field names must be valid identifiers'')"
proof -
  have k: "keys (cursor_rows \<lparr>cursor_rows = count_result\<rparr>) = Inr [''count(*)'']"
    by (simp add: keys_def returns_rows_def count_result_def)
  have a: "fst (sql_cursor_rows2dict \<lparr>cursor_rows = count_result\<rparr>) = Inr [[(''count(*)'', VInt 5)]]"
    by (simp add: count_result_def sql_cursor_rows2dict_def mappings_all_def returns_rows_def)
  have b: "fst (sql_cursor_rows2tuple \<lparr>cursor_rows = count_result\<rparr>) =
       Inl (ValueError ''Type names and field names must be valid identifiers'')"
    unfolding sql_cursor_rows2tuple_def k by (simp add: namedtuple_count_star)
  show ?thesis using a b by (rule conjI)
qed

end
